theory Spec2Isabelle
  imports Complex_Main "HOL-Library.AList" "HOL-Library.Char_ord" "HOL-Library.List_Lexorder"
begin

section \<open>Green-Metrics-Extraction-Tool: extraction, aggregation and workbook emission\<close>

text \<open>
  The repository holds three scripts of one shape (configuration, one HTTP GET, rows from
  the JSON body, tables, a workbook): \<^verbatim>\<open>ExtractData.py\<close> (suffix \<open>_ED\<close> below),
  \<^verbatim>\<open>green_metrics_extractor.py\<close> (suffix \<open>_GM\<close>) and \<^verbatim>\<open>cloud_patterns_summary.py\<close>
  (suffix \<open>_CP\<close>, or no suffix where the name is its own).

  The JSON body is modelled decoded: an object the code reads with \<^verbatim>\<open>.get(key, default)\<close>
  is a record whose fields are options (\<open>None\<close>: the key is absent), text fields hold
  strings and the counts and minutes hold Python integers (\<open>int\<close>, unbounded).
  A value of another JSON type in one of these fields (a fraction, a string where a
  number is read, \<^verbatim>\<open>null\<close>) is outside the model.
\<close>

subsection \<open>Errors and console events\<close>

datatype error = KeyError string

datatype cell = CNone | CStr string | CInt int | CNum rat | CFormula string

type_synonym sheet = "cell list list"
type_synonym workbook = "(string \<times> sheet) list"

datatype event =
    Print string
  | HttpGet string string
  | MakeDirs string
  | WriteFile string workbook

subsection \<open>Effort conversion\<close>

text \<open>
  \<^verbatim>\<open>round(effort_min / 480, 2)\<close>. Python divides to the nearest double and rounds that
  double to two decimals, an exact tie going to the even hundredth. The model computes on
  the exact quotient and returns the decimal value of the result; for minutes below
  \<open>2 ^ 40\<close> in magnitude the double lies on the same side of every rounding boundary as
  the exact quotient (a non-tie quotient is at least 1/2400 away from a boundary), and
  the ties (\<open>effort_min = 60 * m\<close>, \<open>m\<close> odd) are exact doubles.
\<close>

definition round_half_even :: "rat \<Rightarrow> int" where
  "round_half_even y =
     (let f = \<lfloor>y\<rfloor>; d = y - of_int f
      in if d < 1 / 2 then f
         else if 1 / 2 < d then f + 1
         else if even f then f else f + 1)"

definition round2 :: "rat \<Rightarrow> rat" where
  "round2 x = of_int (round_half_even (x * 100)) / 100"

definition effort_person_days :: "int \<Rightarrow> rat" where
  "effort_person_days effort_min = round2 (of_int effort_min / 480)"

subsection \<open>Rows of the tables\<close>

text \<open>
  A detail row is the list \<^verbatim>\<open>[pattern, technology, occurrences, effort, None, None]\<close>;
  the last two cells are the placeholders for the cost and the tech debt.
\<close>

record detail_row =
  row_pattern :: string
  row_technology :: string
  row_occurrences :: int
  row_effort :: rat
  row_cost :: "rat option"
  row_tech_debt :: "rat option"

record summary_row =
  sum_pattern :: string
  sum_technologies :: string
  sum_occurrences :: int

record unique_row =
  ua_pattern :: string
  ua_count :: int

text \<open>
  \<^verbatim>\<open>DataFrame.sort_values(column, ascending=False)\<close> is pandas, not code of the repository.
  It is modelled as the stable descending sort, which is what pandas computes on the
  small tables of a report; its default algorithm promises no tie order on long ones.
\<close>

definition sort_values_desc :: "('a \<Rightarrow> int) \<Rightarrow> 'a list \<Rightarrow> 'a list" where
  "sort_values_desc col rows = sort_key (\<lambda>r. - col r) rows"

text \<open>\<^verbatim>\<open>', '.join(xs)\<close>\<close>

fun join :: "string list \<Rightarrow> string" where
  "join [] = []"
| "join [x] = x"
| "join (x # y # ys) = x @ '', '' @ join (y # ys)"

text \<open>\<^verbatim>\<open>Series.unique()\<close>: the distinct values in order of first appearance.\<close>

definition unique :: "'a list \<Rightarrow> 'a list" where
  "unique xs = foldl (\<lambda>acc x. if x \<in> set acc then acc else acc @ [x]) [] xs"

subsection \<open>The application-scoped green document (ExtractData, green\_metrics\_extractor)\<close>

record green_requirement =
  gr_display :: "string option"

record detail =
  greenRequirement :: "green_requirement option"
  greenOccurrences :: "int option"
  greenEffort :: "int option"

record tech_data =
  technology :: "string option"
  greenIndexDetails :: "detail list option"

record metric =
  greenDetail :: "tech_data list option"

text \<open>
  \<open>other_keys\<close> tells whether the object has a key besides \<^verbatim>\<open>metrics\<close>: the empty
  object is falsy in \<^verbatim>\<open>if not data\<close>.
\<close>

record document =
  metrics :: "metric list option"
  other_keys :: bool

text \<open>The result of \<^verbatim>\<open>get_api_data\<close>: the parsed body, or the request exception's text.\<close>

datatype 'a fetched = RequestFailed string | Body 'a

text \<open>The body of the inner loop over \<^verbatim>\<open>tech_data['greenIndexDetails']\<close>.\<close>

definition green_row :: "string \<Rightarrow> detail \<Rightarrow> detail_row list" where
  "green_row tech d =
     (let green_req = (case greenRequirement d of None \<Rightarrow> \<lparr>gr_display = None\<rparr> | Some g \<Rightarrow> g);
          occurrences = (case greenOccurrences d of None \<Rightarrow> 0 | Some n \<Rightarrow> n)
      in if occurrences = 0 then []
         else
           let effort_min = (case greenEffort d of None \<Rightarrow> 0 | Some m \<Rightarrow> m)
           in [\<lparr>row_pattern = (case gr_display green_req of None \<Rightarrow> ''N/A'' | Some s \<Rightarrow> s),
                row_technology = tech,
                row_occurrences = occurrences,
                row_effort = effort_person_days effort_min,
                row_cost = None,
                row_tech_debt = None\<rparr>])"

fun green_details :: "string \<Rightarrow> detail list \<Rightarrow> detail_row list" where
  "green_details tech [] = []"
| "green_details tech (d # ds) = green_row tech d @ green_details tech ds"

text \<open>The outer loop over \<^verbatim>\<open>metric['greenDetail']\<close>.\<close>

fun green_rows :: "tech_data list \<Rightarrow> detail_row list" where
  "green_rows [] = []"
| "green_rows (t # ts) =
     (let tech = (case technology t of None \<Rightarrow> ''N/A'' | Some s \<Rightarrow> s)
      in case greenIndexDetails t of
           None \<Rightarrow> green_rows ts
         | Some [] \<Rightarrow> green_rows ts
         | Some ds \<Rightarrow> green_details tech ds @ green_rows ts)"

text \<open>
  The part of \<^verbatim>\<open>extract_green_data\<close> the two scripts share, after the request: the
  messages printed and the unsorted rows, \<open>None\<close> where the function returns \<^verbatim>\<open>None\<close>.
\<close>

definition green_extract_rows :: "document fetched \<Rightarrow> event list \<times> detail_row list option" where
  "green_extract_rows resp =
     (case resp of
        RequestFailed e \<Rightarrow> ([Print (''API request failed: '' @ e)], None)
      | Body data \<Rightarrow>
          if metrics data = None \<and> \<not> other_keys data then ([], None)
          else
            (case metrics data of
               None \<Rightarrow> ([Print ''No metrics data found in the response.''], None)
             | Some [] \<Rightarrow> ([Print ''No metrics data found in the response.''], None)
             | Some (metric # _) \<Rightarrow>
                 (case greenDetail metric of
                    None \<Rightarrow> ([Print ''No green details found in metrics.''], None)
                  | Some [] \<Rightarrow> ([Print ''No green details found in metrics.''], None)
                  | Some tds \<Rightarrow>
                      (let rows = green_rows tds
                       in if rows = [] then ([Print ''No rules with occurrences found.''], None)
                          else ([], Some rows)))))"

text \<open>\<^verbatim>\<open>ExtractData.extract_green_data\<close>, after the request.\<close>

definition extract_green_data_ED :: "document fetched \<Rightarrow> event list \<times> detail_row list option" where
  "extract_green_data_ED resp =
     (case green_extract_rows resp of
        (out, None) \<Rightarrow> (out, None)
      | (out, Some rows) \<Rightarrow> (out, Some (sort_values_desc row_occurrences rows)))"

text \<open>
  \<^verbatim>\<open>green_metrics_extractor.extract_green_data\<close>: the summary comes from
  \<^verbatim>\<open>detailed_df.groupby('Rule/Pattern')\<close>, which yields the groups in ascending order of
  the pattern, each group in the order of the sorted detail table.
\<close>

definition summary_GM :: "detail_row list \<Rightarrow> summary_row list" where
  "summary_GM detailed_df =
     map (\<lambda>rule.
            let group = filter (\<lambda>r. row_pattern r = rule) detailed_df
            in \<lparr>sum_pattern = rule,
                sum_technologies = join (unique (map row_technology group)),
                sum_occurrences = sum_list (map row_occurrences group)\<rparr>)
         (sort (remdups (map row_pattern detailed_df)))"

definition extract_green_data_GM ::
    "document fetched \<Rightarrow> event list \<times> (detail_row list \<times> summary_row list) option" where
  "extract_green_data_GM resp =
     (case green_extract_rows resp of
        (out, None) \<Rightarrow> (out, None)
      | (out, Some rows) \<Rightarrow>
          (let detailed_df = sort_values_desc row_occurrences rows;
               summary_df = sort_values_desc sum_occurrences (summary_GM detailed_df)
           in (out, Some (detailed_df, summary_df))))"

subsection \<open>The domain-scoped cloud-pattern list (cloud\_patterns\_summary)\<close>

record application =
  name :: "string option"

record techno_obj =
  techno_display :: "string option"

record cloud_item =
  display :: "string option"
  techno :: "techno_obj option"
  roadBlocks :: "int option"
  cloudEffort :: "int option"
  applications :: "application list option"

text \<open>The parsed body: a list of pattern objects, or any other JSON value.\<close>

datatype cloud_json = NotAList | ItemList "cloud_item list"

text \<open>
  The four accumulators of the loop. A Python dict keeps its keys in insertion order and
  is an association list updated with \<open>AList.update\<close>; a Python set is a duplicate-free
  list grown with \<open>List.insert\<close>, read only through \<^verbatim>\<open>sorted\<close> and \<^verbatim>\<open>len\<close>.
\<close>

record cloud_state =
  detailed_rows :: "detail_row list"
  summary_by_pattern :: "(string \<times> (int \<times> string list)) list"
  pattern_app_map :: "(string \<times> string list) list"
  all_apps_set :: "string list"

definition init_state :: cloud_state where
  "init_state = \<lparr>detailed_rows = [], summary_by_pattern = [], pattern_app_map = [],
                  all_apps_set = []\<rparr>"

text \<open>\<^verbatim>\<open>{app['name'] for app in applications}\<close>: indexing raises \<^verbatim>\<open>KeyError\<close> on an absent key.\<close>

fun app_names :: "application list \<Rightarrow> error + string list" where
  "app_names [] = Inr []"
| "app_names (app # apps) =
     (case name app of
        None \<Rightarrow> Inl (KeyError ''name'')
      | Some n \<Rightarrow> (case app_names apps of Inl e \<Rightarrow> Inl e | Inr ns \<Rightarrow> Inr (List.insert n ns)))"

text \<open>One pass of the body of \<^verbatim>\<open>for item in response_json\<close>.\<close>

definition cloud_step :: "cloud_state \<Rightarrow> cloud_item \<Rightarrow> error + cloud_state" where
  "cloud_step st item =
     (let pattern = (case display item of None \<Rightarrow> ''N/A'' | Some s \<Rightarrow> s);
          technology = (case techno item of
                          None \<Rightarrow> ''N/A''
                        | Some t \<Rightarrow> (case techno_display t of None \<Rightarrow> ''N/A'' | Some s \<Rightarrow> s));
          occurrences = (case roadBlocks item of None \<Rightarrow> 0 | Some n \<Rightarrow> n);
          effort_min = (case cloudEffort item of None \<Rightarrow> 0 | Some m \<Rightarrow> m);
          apps = (case applications item of None \<Rightarrow> [] | Some as \<Rightarrow> as)
      in if apps = [] \<or> occurrences = 0 then Inr st
         else
           let effort_pd = effort_person_days effort_min;
               rows = detailed_rows st @
                  [\<lparr>row_pattern = pattern, row_technology = technology,
                    row_occurrences = occurrences, row_effort = effort_pd,
                    row_cost = None, row_tech_debt = None\<rparr>];
               entry = (case map_of (summary_by_pattern st) pattern of
                          None \<Rightarrow> (0, [])
                        | Some e \<Rightarrow> e);
               summary = AList.update pattern
                           (fst entry + occurrences, List.insert technology (snd entry))
                           (summary_by_pattern st)
           in case app_names apps of
                Inl e \<Rightarrow> Inl e
              | Inr names \<Rightarrow>
                  Inr \<lparr>detailed_rows = rows,
                       summary_by_pattern = summary,
                       pattern_app_map =
                         AList.update pattern
                           (List.union names
                              (case map_of (pattern_app_map st) pattern of
                                 None \<Rightarrow> []
                               | Some s \<Rightarrow> s))
                           (pattern_app_map st),
                       all_apps_set = List.union names (all_apps_set st)\<rparr>)"

fun cloud_loop :: "cloud_state \<Rightarrow> cloud_item list \<Rightarrow> error + cloud_state" where
  "cloud_loop st [] = Inr st"
| "cloud_loop st (item # items) =
     (case cloud_step st item of Inl e \<Rightarrow> Inl e | Inr st' \<Rightarrow> cloud_loop st' items)"

text \<open>The three tables built after the loop.\<close>

definition detailed_df_of :: "cloud_state \<Rightarrow> detail_row list" where
  "detailed_df_of st = sort_values_desc row_occurrences (detailed_rows st)"

definition summary_df_of :: "cloud_state \<Rightarrow> summary_row list" where
  "summary_df_of st =
     sort_values_desc sum_occurrences
       (map (\<lambda>(pattern, data).
               \<lparr>sum_pattern = pattern,
                sum_technologies = join (sort (snd data)),
                sum_occurrences = fst data\<rparr>)
            (summary_by_pattern st))"

definition unique_apps_df_of :: "cloud_state \<Rightarrow> unique_row list" where
  "unique_apps_df_of st =
     sort_values_desc ua_count
       (map (\<lambda>(pattern, apps). \<lparr>ua_pattern = pattern, ua_count = int (length apps)\<rparr>)
            (pattern_app_map st))
     @ [\<lparr>ua_pattern = ''Unique apps across all patterns'',
         ua_count = int (length (all_apps_set st))\<rparr>]"

type_synonym cloud_tables = "detail_row list \<times> summary_row list \<times> unique_row list"

definition tables_of :: "cloud_state \<Rightarrow> cloud_tables" where
  "tables_of st = (detailed_df_of st, summary_df_of st, unique_apps_df_of st)"

text \<open>
  \<^verbatim>\<open>extract_data(response_json)\<close>: the messages printed, and the exception raised or the
  value returned (\<open>None\<close> for the triple of \<^verbatim>\<open>None\<close>s). The argument is \<open>None\<close> when
  \<^verbatim>\<open>get_domain_cloud_data\<close> returned \<^verbatim>\<open>None\<close>.
\<close>

definition extract_data :: "cloud_json option \<Rightarrow> event list \<times> (error + cloud_tables option)" where
  "extract_data response_json =
     (case response_json of
        None \<Rightarrow> ([Print ''Unexpected or empty response format.''], Inr None)
      | Some NotAList \<Rightarrow> ([Print ''Unexpected or empty response format.''], Inr None)
      | Some (ItemList []) \<Rightarrow> ([Print ''Unexpected or empty response format.''], Inr None)
      | Some (ItemList items) \<Rightarrow>
          (case cloud_loop init_state items of
             Inl e \<Rightarrow> ([], Inl e)
           | Inr st \<Rightarrow> ([], Inr (Some (tables_of st)))))"

subsection \<open>Workbook emission\<close>

text \<open>
  A sheet is the list of its rows, the header first, so the spreadsheet row \<open>r\<close> (from 1)
  is element \<open>r - 1\<close>. Only the cell values are modelled: fonts, number formats and
  column widths are left out. The sums of the TOTAL row are taken over Python integers
  and exact hundredths; pandas holds the columns as 64-bit integers and doubles.
\<close>

text \<open>\<^verbatim>\<open>str(n)\<close> for a row number.\<close>

fun str_nat :: "nat \<Rightarrow> string" where
  "str_nat n =
     (if n < 10 then [char_of (48 + n)]
      else str_nat (n div 10) @ [char_of (48 + n mod 10)])"

declare str_nat.simps [simp del]

definition opt_cell :: "rat option \<Rightarrow> cell" where
  "opt_cell v = (case v of None \<Rightarrow> CNone | Some x \<Rightarrow> CNum x)"

definition detail_header :: "cell list" where
  "detail_header =
     [CStr ''Rule/Pattern'', CStr ''Technology'', CStr ''Number of Occurrences'',
      CStr ''Effort by Occurrence (Person-day)'', CStr ''Cost (FTE/Day)'',
      CStr ''Tech Debt ($) Effort x Cost'']"

definition detail_cells :: "detail_row \<Rightarrow> cell list" where
  "detail_cells r =
     [CStr (row_pattern r), CStr (row_technology r), CInt (row_occurrences r),
      CNum (row_effort r), opt_cell (row_cost r), opt_cell (row_tech_debt r)]"

text \<open>The TOTAL row of a detail table, the same dict in the three scripts.\<close>

definition detail_total :: "detail_row list \<Rightarrow> cell list" where
  "detail_total df =
     [CStr ''TOTAL'', CStr [], CInt (sum_list (map row_occurrences df)),
      CNum (sum_list (map row_effort df)), CStr [], CStr []]"

definition summary_cells :: "summary_row \<Rightarrow> cell list" where
  "summary_cells r = [CStr (sum_pattern r), CStr (sum_technologies r), CInt (sum_occurrences r)]"

definition summary_total :: "summary_row list \<Rightarrow> cell list" where
  "summary_total df = [CStr ''TOTAL'', CStr [], CInt (sum_list (map sum_occurrences df))]"

definition unique_cells :: "unique_row \<Rightarrow> cell list" where
  "unique_cells r = [CStr (ua_pattern r), CInt (ua_count r)]"

text \<open>
  \<^verbatim>\<open>ws[f'F{row}'] = value\<close>. The column is given by its index (\<open>F\<close> is 5). openpyxl
  creates a cell that does not exist yet, so the sheet is padded up to it.
\<close>

definition set_cell :: "nat \<Rightarrow> nat \<Rightarrow> cell \<Rightarrow> sheet \<Rightarrow> sheet" where
  "set_cell col row v ws =
     (let ws' = ws @ replicate (row - length ws) [];
          cells = ws' ! (row - 1);
          cells' = cells @ replicate (Suc col - length cells) CNone
      in ws'[row - 1 := cells'[col := v]])"

definition round_formula :: "nat \<Rightarrow> cell" where
  "round_formula row =
     CFormula (''=ROUND(D'' @ str_nat row @ ''*E'' @ str_nat row @ '', 2)'')"

definition sum_formula :: "nat \<Rightarrow> cell" where
  "sum_formula total_row_num = CFormula (''=SUM(F2:F'' @ str_nat (total_row_num - 1) @ '')'')"

text \<open>\<^verbatim>\<open>for row in range(lo, hi): ws[f'F{row}'] = f'=ROUND(D{row}*E{row}, 2)'\<close>\<close>

definition write_round_formulas :: "nat \<Rightarrow> nat \<Rightarrow> sheet \<Rightarrow> sheet" where
  "write_round_formulas lo hi ws = fold (\<lambda>row. set_cell 5 row (round_formula row)) [lo..<hi] ws"

text \<open>\<^verbatim>\<open>ExtractData.save_to_excel\<close>: one sheet.\<close>

definition save_to_excel_ED :: "detail_row list \<Rightarrow> string \<Rightarrow> string \<Rightarrow> string \<Rightarrow> event list" where
  "save_to_excel_ED df domain_id application_id timestamp =
     (let output_file = ''output/green_metrics_d'' @ domain_id @ ''_a'' @ application_id
                          @ ''_'' @ timestamp @ ''.xlsx'';
          excel_df = map detail_cells df @ [detail_total df];
          ws0 = detail_header # excel_df;
          ws1 = write_round_formulas 2 (length df + 2) ws0;
          total_row_num = length df + 2;
          ws2 = set_cell 5 total_row_num (sum_formula total_row_num) ws1
      in [MakeDirs ''output'',
          WriteFile output_file [(''Green Metrics'', ws0)],
          WriteFile output_file [(''Green Metrics'', ws2)],
          Print (''Successfully saved data to '' @ output_file),
          Print ''Remember to enter cost rates in Column E to calculate Tech Debt''])"

text \<open>\<^verbatim>\<open>green_metrics_extractor.save_to_excel\<close>: the detail sheet and the summary sheet.\<close>

definition save_to_excel_GM ::
    "detail_row list \<Rightarrow> summary_row list \<Rightarrow> string \<Rightarrow> string \<Rightarrow> string \<Rightarrow> event list" where
  "save_to_excel_GM detailed_df summary_df domain_id application_id timestamp =
     (let output_file = ''output/green_metrics_d'' @ domain_id @ ''_a'' @ application_id
                          @ ''_'' @ timestamp @ ''.xlsx'';
          excel_detailed_df = map detail_cells detailed_df @ [detail_total detailed_df];
          excel_summary_df = map summary_cells summary_df @ [summary_total summary_df];
          ws_detail0 = detail_header # excel_detailed_df;
          ws_summary =
            [CStr ''Rule/Pattern'', CStr ''Technology'', CStr ''Number of Occurrences'']
            # excel_summary_df;
          ws_detail1 = write_round_formulas 2 (length detailed_df + 2) ws_detail0;
          total_row_num = length detailed_df + 2;
          ws_detail2 = set_cell 5 total_row_num (sum_formula total_row_num) ws_detail1
      in [MakeDirs ''output'',
          WriteFile output_file
            [(''Detailed Green Metrics'', ws_detail0), (''Summary by Rule'', ws_summary)],
          WriteFile output_file
            [(''Detailed Green Metrics'', ws_detail2), (''Summary by Rule'', ws_summary)],
          Print (''Successfully saved data to '' @ output_file),
          Print ''Remember to enter cost rates in Column E to calculate Tech Debt''])"

text \<open>
  \<^verbatim>\<open>cloud_patterns_summary.save_to_excel\<close>: three sheets. The name \<^verbatim>\<open>detailed_df\<close> is
  rebound to the table with its TOTAL row before the formula loop, whose bound is
  \<^verbatim>\<open>len(detailed_df) + 1\<close>; no statement writes the TOTAL row's column F.
\<close>

definition save_to_excel_CP ::
    "detail_row list \<Rightarrow> summary_row list \<Rightarrow> unique_row list \<Rightarrow> string \<Rightarrow> string \<Rightarrow> event list" where
  "save_to_excel_CP detailed_df summary_df unique_apps_df domain_id timestamp =
     (let output_file = ''output/domain_cloud_metrics_d'' @ domain_id @ ''_'' @ timestamp
                          @ ''.xlsx'';
          detailed_df' = map detail_cells detailed_df @ [detail_total detailed_df];
          summary_df' = map summary_cells summary_df @ [summary_total summary_df];
          ws_detail0 = detail_header # detailed_df';
          ws_summary =
            [CStr ''Rule/Pattern'', CStr ''Technologies'', CStr ''Number of Occurrences'']
            # summary_df';
          ws_unique =
            [CStr ''Rule/Pattern'', CStr ''Unique Applications'']
            # map unique_cells unique_apps_df;
          ws_detail1 = write_round_formulas 2 (length detailed_df' + 1) ws_detail0
      in [MakeDirs ''output'',
          WriteFile output_file
            [(''Detailed Cloud Metrics'', ws_detail0), (''Summary by Rule'', ws_summary),
             (''Pattern in Unique Apps'', ws_unique)],
          WriteFile output_file
            [(''Detailed Cloud Metrics'', ws_detail1), (''Summary by Rule'', ws_summary),
             (''Pattern in Unique Apps'', ws_unique)],
          Print (''Data saved to '' @ output_file),
          Print ''Enter cost rates in Column E to calculate Tech Debt.''])"

subsection \<open>Configuration and the three entry points\<close>

text \<open>
  \<^verbatim>\<open>config.json\<close> as \<^verbatim>\<open>load_config\<close> finds it: opening or parsing raised (with the
  exception's text; a body that is not an object raises at the first \<^verbatim>\<open>.get\<close>), or the
  object parsed, its values as they print in an f-string. A key holding \<^verbatim>\<open>null\<close> reads
  as \<^verbatim>\<open>None\<close> and is a key the map does not have. The messages are given without
  their leading pictograph.
\<close>

datatype config_file = ConfigRaised string | Config "string \<rightharpoonup> string"

definition load_config_ED ::
    "config_file \<Rightarrow> event list \<times> (string option \<times> string option \<times> string option \<times> string option)" where
  "load_config_ED file =
     (case file of
        Config config \<Rightarrow>
          ([], (config ''HLInstance'', config ''domain_id'', config ''application_id'',
                config ''api_key''))
      | ConfigRaised e \<Rightarrow> ([Print (''Error loading config.json: '' @ e)], (None, None, None, None)))"

definition load_config_CP ::
    "config_file \<Rightarrow> event list \<times> (string option \<times> string option \<times> string option)" where
  "load_config_CP file =
     (case file of
        Config config \<Rightarrow> ([], (config ''HLInstance'', config ''domain_id'', config ''api_key''))
      | ConfigRaised e \<Rightarrow> ([Print (''Error loading config.json: '' @ e)], (None, None, None)))"

text \<open>
  The remote service is a function from the URL and the \<^verbatim>\<open>Authorization\<close> header to the
  outcome of the request; the clock gives the timestamp of the file name.
\<close>

definition app_url :: "string \<Rightarrow> string \<Rightarrow> string \<Rightarrow> string" where
  "app_url hl_instance domain_id application_id =
     ''https://'' @ hl_instance @ ''.casthighlight.com/WS2/domains/'' @ domain_id
       @ ''/applications/'' @ application_id"

definition cloud_url :: "string \<Rightarrow> string \<Rightarrow> string" where
  "cloud_url hl_instance domain_id =
     ''https://'' @ hl_instance @ ''.casthighlight.com/WS2/cloud/requirements/'' @ domain_id"

definition main_ED :: "config_file \<Rightarrow> (string \<Rightarrow> string \<Rightarrow> document fetched) \<Rightarrow> string \<Rightarrow> event list" where
  "main_ED file request timestamp =
     (case load_config_ED file of
        (out, (Some hl_instance, Some domain_id, Some application_id, Some api_key)) \<Rightarrow>
          (let url = app_url hl_instance domain_id application_id;
               auth = ''Bearer '' @ api_key
           in case extract_green_data_ED (request url auth) of
                (out', Some df) \<Rightarrow>
                  out @ [HttpGet url auth] @ out'
                    @ save_to_excel_ED df domain_id application_id timestamp
              | (out', None) \<Rightarrow>
                  out @ [HttpGet url auth] @ out'
                    @ [Print ''No data was extracted. Check the input parameters and API access.''])
      | (out, _) \<Rightarrow> out @ [Print ''Failed to load configuration''])"

definition main_GM :: "config_file \<Rightarrow> (string \<Rightarrow> string \<Rightarrow> document fetched) \<Rightarrow> string \<Rightarrow> event list" where
  "main_GM file request timestamp =
     (case load_config_ED file of
        (out, (Some hl_instance, Some domain_id, Some application_id, Some api_key)) \<Rightarrow>
          (let url = app_url hl_instance domain_id application_id;
               auth = ''Bearer '' @ api_key
           in case extract_green_data_GM (request url auth) of
                (out', Some (detailed_df, summary_df)) \<Rightarrow>
                  out @ [HttpGet url auth] @ out'
                    @ save_to_excel_GM detailed_df summary_df domain_id application_id timestamp
              | (out', None) \<Rightarrow>
                  out @ [HttpGet url auth] @ out'
                    @ [Print ''No data was extracted. Check the input parameters and API access.''])
      | (out, _) \<Rightarrow> out @ [Print ''Failed to load configuration''])"

text \<open>
  \<^verbatim>\<open>cloud_patterns_summary.main\<close>: the events, and the exception that ended the run if
  one was raised (nothing in \<^verbatim>\<open>main\<close> catches it).
\<close>

definition main_CP ::
    "config_file \<Rightarrow> (string \<Rightarrow> string \<Rightarrow> cloud_json fetched) \<Rightarrow> string \<Rightarrow> event list \<times> error option" where
  "main_CP file request timestamp =
     (case load_config_CP file of
        (out, (Some hl_instance, Some domain_id, Some api_key)) \<Rightarrow>
          (let url = cloud_url hl_instance domain_id;
               auth = ''Bearer '' @ api_key;
               fetched = (case request url auth of
                            RequestFailed e \<Rightarrow> ([Print (''API request failed: '' @ e)], None)
                          | Body response_json \<Rightarrow> ([], Some response_json))
           in case extract_data (snd fetched) of
                (out', Inl e) \<Rightarrow> (out @ [HttpGet url auth] @ fst fetched @ out', Some e)
              | (out', Inr None) \<Rightarrow>
                  (out @ [HttpGet url auth] @ fst fetched @ out'
                     @ [Print ''No data extracted. Please check the API response.''], None)
              | (out', Inr (Some (detailed_df, summary_df, unique_apps_df))) \<Rightarrow>
                  (out @ [HttpGet url auth] @ fst fetched @ out'
                     @ save_to_excel_CP detailed_df summary_df unique_apps_df domain_id timestamp,
                   None))
      | (out, _) \<Rightarrow> (out @ [Print ''Failed to load configuration''], None))"

subsection \<open>What the tables are compared with\<close>

text \<open>
  The records of the cloud list that pass the guard of the loop, and the detail row of
  one of them, written apart from the loop to state what the loop accumulates.
\<close>

definition kept :: "cloud_item \<Rightarrow> bool" where
  "kept item \<longleftrightarrow>
     (case applications item of None \<Rightarrow> False | Some as \<Rightarrow> as \<noteq> []) \<and>
     (case roadBlocks item of None \<Rightarrow> False | Some n \<Rightarrow> n \<noteq> 0)"

definition cloud_row :: "cloud_item \<Rightarrow> detail_row" where
  "cloud_row item =
     \<lparr>row_pattern = (case display item of None \<Rightarrow> ''N/A'' | Some s \<Rightarrow> s),
      row_technology =
        (case techno item of
           None \<Rightarrow> ''N/A''
         | Some t \<Rightarrow> (case techno_display t of None \<Rightarrow> ''N/A'' | Some s \<Rightarrow> s)),
      row_occurrences = (case roadBlocks item of None \<Rightarrow> 0 | Some n \<Rightarrow> n),
      row_effort = effort_person_days (case cloudEffort item of None \<Rightarrow> 0 | Some m \<Rightarrow> m),
      row_cost = None,
      row_tech_debt = None\<rparr>"

text \<open>
  What the accumulators of the loop hold at every pass: the keys of the two dicts are the
  patterns of the rows in order of first appearance, the entry of a pattern holds the sum
  of the occurrences and the technologies of its rows, and no row has zero occurrences.
\<close>

definition cloud_inv :: "cloud_state \<Rightarrow> bool" where
  "cloud_inv st \<longleftrightarrow>
     map fst (summary_by_pattern st) = unique (map row_pattern (detailed_rows st)) \<and>
     map fst (pattern_app_map st) = unique (map row_pattern (detailed_rows st)) \<and>
     (\<forall>p c ts. map_of (summary_by_pattern st) p = Some (c, ts) \<longrightarrow>
        c = sum_list (map row_occurrences
              (filter (\<lambda>r. row_pattern r = p) (detailed_rows st))) \<and>
        set ts = row_technology ` {r \<in> set (detailed_rows st). row_pattern r = p} \<and>
        distinct ts) \<and>
     (\<forall>r \<in> set (detailed_rows st). row_occurrences r \<noteq> 0)"

text \<open>
  A table \<open>out\<close> is the descending stable sort of \<open>pre\<close> by the column \<open>col\<close>: the
  column never increases along \<open>out\<close>, and the rows of each value of the column are
  those of \<open>pre\<close>, in the order they have in \<open>pre\<close>.
\<close>

definition sorted_desc_stable :: "('a \<Rightarrow> int) \<Rightarrow> 'a list \<Rightarrow> 'a list \<Rightarrow> bool" where
  "sorted_desc_stable col pre out \<longleftrightarrow>
     sorted_wrt (\<lambda>a b. col b \<le> col a) out \<and>
     (\<forall>k. filter (\<lambda>r. col r = k) out = filter (\<lambda>r. col r = k) pre)"

subsection \<open>Reading a run\<close>

text \<open>
  The workbooks a run wrote, in order, and the first sheet (the detail sheet in the three
  programs) of the last of them, which is the file the run leaves behind.
\<close>

definition written :: "event list \<Rightarrow> workbook list" where
  "written evs = concat (map (\<lambda>ev. case ev of WriteFile f wb \<Rightarrow> [wb] | _ \<Rightarrow> []) evs)"

definition detail_sheet :: "event list \<Rightarrow> sheet" where
  "detail_sheet evs =
     (case rev (written evs) of
        [] \<Rightarrow> []
      | wb # _ \<Rightarrow> (case wb of [] \<Rightarrow> [] | (sheet_name, ws) # _ \<Rightarrow> ws))"

text \<open>
  What is asked of the detail sheet \<open>ws\<close> of a table \<open>df\<close>: a header, one row per row
  of \<open>df\<close> holding its occurrences in column C, and a last row labelled TOTAL whose
  column C is the sum of the occurrences and whose cost cell (column E) is the empty
  string.
\<close>

definition total_row_ok :: "detail_row list \<Rightarrow> sheet \<Rightarrow> bool" where
  "total_row_ok df ws \<longleftrightarrow>
     length ws = length df + 2 \<and>
     (\<forall>i < length df. ws ! (i + 1) ! 2 = CInt (row_occurrences (df ! i))) \<and>
     ws ! (length df + 1) ! 0 = CStr ''TOTAL'' \<and>
     ws ! (length df + 1) ! 2 = CInt (sum_list (map row_occurrences df)) \<and>
     ws ! (length df + 1) ! 4 = CStr []"

section \<open>Properties\<close>

subsection \<open>The cloud loop skips records\<close>

lemma cloud_step_skip:
  "applications r = None \<or> applications r = Some [] \<or> roadBlocks r = None \<or> roadBlocks r = Some 0
   \<Longrightarrow> cloud_step st r = Inr st"
  unfolding cloud_step_def Let_def by (elim disjE) simp_all

lemma cloud_loop_append:
  "cloud_loop st (xs @ ys) =
     (case cloud_loop st xs of Inl e \<Rightarrow> Inl e | Inr st' \<Rightarrow> cloud_loop st' ys)"
  by (induction xs arbitrary: st) (auto split: sum.splits)

lemma cloud_loop_skip:
  assumes "\<And>s. cloud_step s r = Inr s"
  shows "cloud_loop st (xs @ r # ys) = cloud_loop st (xs @ ys)"
  by (simp add: cloud_loop_append assms split: sum.splits)

lemma extract_data_nonempty:
  "items \<noteq> [] \<Longrightarrow>
   extract_data (Some (ItemList items)) =
     (case cloud_loop init_state items of
        Inl e \<Rightarrow> ([], Inl e)
      | Inr st \<Rightarrow> ([], Inr (Some (tables_of st))))"
  by (cases items) (simp_all add: extract_data_def)

text \<open>
  Claim C10. In the cloud-pattern extractor a record whose applications list is empty or
  absent leaves every accumulator of the loop as it was, whatever its occurrence count:
  the loop, and the tables \<^verbatim>\<open>extract_data\<close> returns, are those of the input without
  the record.
\<close>

theorem C10_no_applications_no_contribution:
  assumes "applications r = None \<or> applications r = Some []"
  shows "cloud_step st r = Inr st
       \<and> cloud_loop st (xs @ r # ys) = cloud_loop st (xs @ ys)
       \<and> extract_data (Some (ItemList (xs @ r # ys))) =
           (case cloud_loop init_state (xs @ ys) of
              Inl e \<Rightarrow> ([], Inl e)
            | Inr st' \<Rightarrow> ([], Inr (Some (tables_of st'))))"
proof -
  have skip: "cloud_step s r = Inr s" for s
    using assms by (intro cloud_step_skip) auto
  have loop: "cloud_loop s (xs @ r # ys) = cloud_loop s (xs @ ys)" for s
    by (rule cloud_loop_skip) (rule skip)
  show ?thesis
    by (simp add: skip loop extract_data_nonempty)
qed

theorem C10_no_applications_no_contribution_witness:
  "applications \<lparr>display = Some ''P1'', techno = Some \<lparr>techno_display = Some ''Java''\<rparr>,
      roadBlocks = Some 7, cloudEffort = Some 480, applications = Some []\<rparr> = Some []
   \<and> extract_data (Some (ItemList
        [\<lparr>display = Some ''P1'', techno = Some \<lparr>techno_display = Some ''Java''\<rparr>,
          roadBlocks = Some 7, cloudEffort = Some 480, applications = Some []\<rparr>])) =
       ([], Inr (Some ([], [],
          [\<lparr>ua_pattern = ''Unique apps across all patterns'', ua_count = 0\<rparr>])))"
  using C10_no_applications_no_contribution
    [of "\<lparr>display = Some ''P1'', techno = Some \<lparr>techno_display = Some ''Java''\<rparr>,
          roadBlocks = Some 7, cloudEffort = Some 480, applications = Some []\<rparr>"
        init_state "[]" "[]"]
  by (simp add: tables_of_def detailed_df_of_def summary_df_of_def unique_apps_df_of_def
       init_state_def sort_values_desc_def)

subsection \<open>Configuration failures\<close>

lemma main_ED_abort:
  assumes "file = ConfigRaised e \<or>
           (\<exists>config. file = Config config \<and>
              (config ''HLInstance'' = None \<or> config ''domain_id'' = None \<or>
               config ''application_id'' = None \<or> config ''api_key'' = None))"
  shows "main_ED file request ts = fst (load_config_ED file) @ [Print ''Failed to load configuration'']"
    and "main_GM file request ts = fst (load_config_ED file) @ [Print ''Failed to load configuration'']"
  using assms
  by (auto simp: main_ED_def main_GM_def load_config_ED_def split: option.splits)

lemma main_CP_abort:
  assumes "file = ConfigRaised e \<or>
           (\<exists>config. file = Config config \<and>
              (config ''HLInstance'' = None \<or> config ''domain_id'' = None \<or>
               config ''api_key'' = None))"
  shows "main_CP file request ts =
           (fst (load_config_CP file) @ [Print ''Failed to load configuration''], None)"
  using assms
  by (auto simp: main_CP_def load_config_CP_def split: option.splits)

lemma load_config_no_request:
  "HttpGet url auth \<notin> set (fst (load_config_ED file))"
  "HttpGet url auth \<notin> set (fst (load_config_CP file))"
  by (auto simp: load_config_ED_def load_config_CP_def split: config_file.splits)

text \<open>
  Claim C8. When \<^verbatim>\<open>config.json\<close> cannot be opened or parsed, every field of the
  configuration is \<open>None\<close>; when it parses, a field is what the object holds under
  its key, so \<open>None\<close> for an absent key. In both cases each of the three programs
  prints its diagnostic and returns: its run holds no HTTP request.
\<close>

theorem C8_config_failure_aborts_before_request:
  "(file = ConfigRaised e \<or>
      (\<exists>config. file = Config config \<and>
         (config ''HLInstance'' = None \<or> config ''domain_id'' = None \<or>
          config ''application_id'' = None \<or> config ''api_key'' = None))
    \<longrightarrow> main_ED file request ts = fst (load_config_ED file) @ [Print ''Failed to load configuration'']
      \<and> main_GM file request ts = fst (load_config_ED file) @ [Print ''Failed to load configuration'']
      \<and> (\<forall>url auth. HttpGet url auth \<notin> set (main_ED file request ts)
                   \<and> HttpGet url auth \<notin> set (main_GM file request ts)))
   \<and> (file = ConfigRaised e \<or>
      (\<exists>config. file = Config config \<and>
         (config ''HLInstance'' = None \<or> config ''domain_id'' = None \<or> config ''api_key'' = None))
    \<longrightarrow> main_CP file request' ts =
          (fst (load_config_CP file) @ [Print ''Failed to load configuration''], None)
      \<and> (\<forall>url auth. HttpGet url auth \<notin> set (fst (main_CP file request' ts))))
   \<and> load_config_ED (ConfigRaised e) =
        ([Print (''Error loading config.json: '' @ e)], (None, None, None, None))
   \<and> load_config_CP (ConfigRaised e) =
        ([Print (''Error loading config.json: '' @ e)], (None, None, None))
   \<and> load_config_ED (Config config) =
        ([], (config ''HLInstance'', config ''domain_id'', config ''application_id'',
              config ''api_key''))
   \<and> load_config_CP (Config config) =
        ([], (config ''HLInstance'', config ''domain_id'', config ''api_key''))"
proof -
  show ?thesis
    apply (intro conjI impI)
    subgoal by (rule main_ED_abort)
    subgoal by (rule main_ED_abort)
    subgoal by (simp add: main_ED_abort load_config_no_request)
    subgoal by (rule main_CP_abort)
    subgoal by (simp add: main_CP_abort load_config_no_request)
    by (simp_all add: load_config_ED_def load_config_CP_def)
qed

theorem C8_config_failure_aborts_before_request_witness:
  "main_ED (Config [''HLInstance'' \<mapsto> ''acme'', ''domain_id'' \<mapsto> ''7'', ''api_key'' \<mapsto> ''k''])
     (\<lambda>url auth. RequestFailed ''unreachable'') ''20240101_000000''
     = [Print ''Failed to load configuration'']
   \<and> main_GM (ConfigRaised ''No such file'')
     (\<lambda>url auth. RequestFailed ''unreachable'') ''20240101_000000''
     = [Print ''Error loading config.json: No such file'', Print ''Failed to load configuration'']
   \<and> main_CP (Config [''HLInstance'' \<mapsto> ''acme'', ''api_key'' \<mapsto> ''k''])
     (\<lambda>url auth. RequestFailed ''unreachable'') ''20240101_000000''
     = ([Print ''Failed to load configuration''], None)"
  using
    C8_config_failure_aborts_before_request
      [of "Config [''HLInstance'' \<mapsto> ''acme'', ''domain_id'' \<mapsto> ''7'', ''api_key'' \<mapsto> ''k'']"
          "''x''" "\<lambda>url auth. RequestFailed ''unreachable''" "''20240101_000000''"
          "\<lambda>url auth. RequestFailed ''unreachable''"]
    C8_config_failure_aborts_before_request
      [of "ConfigRaised ''No such file''"
          "''No such file''" "\<lambda>url auth. RequestFailed ''unreachable''" "''20240101_000000''"
          "\<lambda>url auth. RequestFailed ''unreachable''"]
    C8_config_failure_aborts_before_request
      [of "Config [''HLInstance'' \<mapsto> ''acme'', ''api_key'' \<mapsto> ''k'']"
          "''x''" "\<lambda>url auth. RequestFailed ''unreachable''" "''20240101_000000''"
          "\<lambda>url auth. RequestFailed ''unreachable''"]
  by (simp add: load_config_ED_def load_config_CP_def)

subsection \<open>Runs on concrete documents\<close>

text \<open>
  Claim C7 on \<^verbatim>\<open>cloud_patterns_summary\<close>: a well-formed response whose only record has
  zero occurrences. \<^verbatim>\<open>extract_data\<close> returns three data frames, empty but not \<^verbatim>\<open>None\<close>,
  so \<^verbatim>\<open>main\<close> calls \<^verbatim>\<open>save_to_excel\<close>: the workbook is written with its TOTAL rows
  and the success message is printed. \<^verbatim>\<open>ExtractData\<close> on the same kind of document
  prints its two diagnostics and writes nothing.
\<close>

theorem C7_cloud_all_filtered_writes_file:
  "main_CP (Config [''HLInstance'' \<mapsto> ''acme'', ''domain_id'' \<mapsto> ''7'', ''api_key'' \<mapsto> ''k''])
     (\<lambda>url auth. Body (ItemList
        [\<lparr>display = Some ''P1'', techno = Some \<lparr>techno_display = Some ''Java''\<rparr>,
          roadBlocks = Some 0, cloudEffort = Some 480,
          applications = Some [\<lparr>name = Some ''App1''\<rparr>]\<rparr>]))
     ''20240101_000000''
   = ([HttpGet ''https://acme.casthighlight.com/WS2/cloud/requirements/7'' ''Bearer k'',
       MakeDirs ''output'',
       WriteFile ''output/domain_cloud_metrics_d7_20240101_000000.xlsx''
         [(''Detailed Cloud Metrics'',
           [detail_header, [CStr ''TOTAL'', CStr [], CInt 0, CNum 0, CStr [], CStr []]]),
          (''Summary by Rule'',
           [[CStr ''Rule/Pattern'', CStr ''Technologies'', CStr ''Number of Occurrences''],
            [CStr ''TOTAL'', CStr [], CInt 0]]),
          (''Pattern in Unique Apps'',
           [[CStr ''Rule/Pattern'', CStr ''Unique Applications''],
            [CStr ''Unique apps across all patterns'', CInt 0]])],
       WriteFile ''output/domain_cloud_metrics_d7_20240101_000000.xlsx''
         [(''Detailed Cloud Metrics'',
           [detail_header, [CStr ''TOTAL'', CStr [], CInt 0, CNum 0, CStr [], CStr []]]),
          (''Summary by Rule'',
           [[CStr ''Rule/Pattern'', CStr ''Technologies'', CStr ''Number of Occurrences''],
            [CStr ''TOTAL'', CStr [], CInt 0]]),
          (''Pattern in Unique Apps'',
           [[CStr ''Rule/Pattern'', CStr ''Unique Applications''],
            [CStr ''Unique apps across all patterns'', CInt 0]])],
       Print ''Data saved to output/domain_cloud_metrics_d7_20240101_000000.xlsx'',
       Print ''Enter cost rates in Column E to calculate Tech Debt.''],
      None)
   \<and> main_ED
       (Config [''HLInstance'' \<mapsto> ''acme'', ''domain_id'' \<mapsto> ''7'',
                ''application_id'' \<mapsto> ''9'', ''api_key'' \<mapsto> ''k''])
       (\<lambda>url auth. Body \<lparr>metrics = Some [\<lparr>greenDetail = Some
           [\<lparr>technology = Some ''Java'', greenIndexDetails = Some
              [\<lparr>greenRequirement = Some \<lparr>gr_display = Some ''P1''\<rparr>,
                greenOccurrences = Some 0, greenEffort = Some 480\<rparr>]\<rparr>]\<rparr>],
           other_keys = False\<rparr>)
       ''20240101_000000''
     = [HttpGet ''https://acme.casthighlight.com/WS2/domains/7/applications/9'' ''Bearer k'',
        Print ''No rules with occurrences found.'',
        Print ''No data was extracted. Check the input parameters and API access.'']"
  by code_simp

text \<open>
  Claim C9 on \<^verbatim>\<open>cloud_patterns_summary\<close>: a record with three road blocks whose one
  application object has no \<^verbatim>\<open>name\<close>. The set comprehension indexes \<^verbatim>\<open>app['name']\<close>
  where every other field is read with \<^verbatim>\<open>.get\<close> and a default, so extraction raises
  \<^verbatim>\<open>KeyError\<close>, and \<^verbatim>\<open>main\<close> ends on it after the request, with no file written.
\<close>

theorem C9_application_without_name_raises:
  "extract_data (Some (ItemList
     [\<lparr>display = Some ''P1'', techno = Some \<lparr>techno_display = Some ''Java''\<rparr>,
       roadBlocks = Some 3, cloudEffort = Some 480,
       applications = Some [\<lparr>name = None\<rparr>]\<rparr>]))
   = ([], Inl (KeyError ''name''))
   \<and> main_CP (Config [''HLInstance'' \<mapsto> ''acme'', ''domain_id'' \<mapsto> ''7'', ''api_key'' \<mapsto> ''k''])
     (\<lambda>url auth. Body (ItemList
        [\<lparr>display = Some ''P1'', techno = Some \<lparr>techno_display = Some ''Java''\<rparr>,
          roadBlocks = Some 3, cloudEffort = Some 480,
          applications = Some [\<lparr>name = None\<rparr>]\<rparr>]))
     ''20240101_000000''
   = ([HttpGet ''https://acme.casthighlight.com/WS2/cloud/requirements/7'' ''Bearer k''],
      Some (KeyError ''name''))"
  by code_simp

text \<open>
  Claim C6 on \<^verbatim>\<open>cloud_patterns_summary\<close>: one record with four road blocks. In the file
  the run leaves behind, the detail row holds the ROUND formula in column F and the TOTAL
  row holds the empty string there; \<^verbatim>\<open>ExtractData\<close> on a document with the same row
  writes the SUM formula into that cell.
\<close>

theorem C6_cloud_total_row_has_no_sum_formula:
  "detail_sheet (fst (main_CP
       (Config [''HLInstance'' \<mapsto> ''acme'', ''domain_id'' \<mapsto> ''7'', ''api_key'' \<mapsto> ''k''])
       (\<lambda>url auth. Body (ItemList
          [\<lparr>display = Some ''P1'', techno = Some \<lparr>techno_display = Some ''Java''\<rparr>,
            roadBlocks = Some 4, cloudEffort = Some 480,
            applications = Some [\<lparr>name = Some ''App1''\<rparr>]\<rparr>]))
       ''20240101_000000''))
   = [detail_header,
      [CStr ''P1'', CStr ''Java'', CInt 4, CNum 1, CNone, CFormula ''=ROUND(D2*E2, 2)''],
      [CStr ''TOTAL'', CStr [], CInt 4, CNum 1, CStr [], CStr []]]
   \<and> detail_sheet (main_ED
       (Config [''HLInstance'' \<mapsto> ''acme'', ''domain_id'' \<mapsto> ''7'',
                ''application_id'' \<mapsto> ''9'', ''api_key'' \<mapsto> ''k''])
       (\<lambda>url auth. Body \<lparr>metrics = Some [\<lparr>greenDetail = Some
           [\<lparr>technology = Some ''Java'', greenIndexDetails = Some
              [\<lparr>greenRequirement = Some \<lparr>gr_display = Some ''P1''\<rparr>,
                greenOccurrences = Some 4, greenEffort = Some 480\<rparr>]\<rparr>]\<rparr>],
           other_keys = False\<rparr>)
       ''20240101_000000'')
   = [detail_header,
      [CStr ''P1'', CStr ''Java'', CInt 4, CNum 1, CNone, CFormula ''=ROUND(D2*E2, 2)''],
      [CStr ''TOTAL'', CStr [], CInt 4, CNum 1, CStr [], CFormula ''=SUM(F2:F2)'']]"
  by code_simp

subsection \<open>Effort conversion\<close>

lemma round_half_even_close: "\<bar>of_int (round_half_even y) - y\<bar> \<le> 1 / 2"
proof -
  have "of_int \<lfloor>y\<rfloor> \<le> y" "y < of_int \<lfloor>y\<rfloor> + 1" by linarith+
  then show ?thesis
    unfolding round_half_even_def Let_def by (auto simp: abs_le_iff)
qed

lemma round2_close: "\<bar>round2 x - x\<bar> \<le> 1 / 200"
proof -
  have "\<bar>of_int (round_half_even (x * 100)) - x * 100\<bar> \<le> 1 / 2"
    by (rule round_half_even_close)
  then have "\<bar>(of_int (round_half_even (x * 100)) - x * 100) / 100\<bar> \<le> (1 / 2) / 100"
    by (simp only: abs_divide) simp
  then show ?thesis by (simp add: round2_def diff_divide_distrib)
qed

lemma round_half_even_neg: "y < 0 \<Longrightarrow> round_half_even y \<le> 0"
proof -
  assume "y < 0"
  then have "\<lfloor>y\<rfloor> < 0" by linarith
  then show ?thesis unfolding round_half_even_def Let_def by auto
qed

lemma effort_neg: "m < 0 \<Longrightarrow> effort_person_days m \<le> 0"
proof -
  assume "m < 0"
  then have "(of_int m / 480 :: rat) * 100 < 0" by simp
  then have "round_half_even (of_int m / 480 * 100) \<le> 0" by (rule round_half_even_neg)
  then show ?thesis by (simp add: effort_person_days_def round2_def divide_le_0_iff)
qed

lemma green_row_effort:
  "r \<in> set (green_row tech d) \<Longrightarrow>
   row_effort r = round2 (of_int (case greenEffort d of None \<Rightarrow> 0 | Some m \<Rightarrow> m) / 480)"
  by (auto simp: green_row_def Let_def effort_person_days_def split: if_splits)

lemma cloud_step_rows:
  assumes "cloud_step st item = Inr st'"
  shows "detailed_rows st' = detailed_rows st \<or>
         detailed_rows st' = detailed_rows st @
           [\<lparr>row_pattern = (case display item of None \<Rightarrow> ''N/A'' | Some s \<Rightarrow> s),
             row_technology = (case techno item of None \<Rightarrow> ''N/A''
                | Some t \<Rightarrow> (case techno_display t of None \<Rightarrow> ''N/A'' | Some s \<Rightarrow> s)),
             row_occurrences = (case roadBlocks item of None \<Rightarrow> 0 | Some n \<Rightarrow> n),
             row_effort = effort_person_days (case cloudEffort item of None \<Rightarrow> 0 | Some m \<Rightarrow> m),
             row_cost = None, row_tech_debt = None\<rparr>]"
  using assms unfolding cloud_step_def Let_def
  by (auto split: if_splits sum.splits)




subsection \<open>Sorting and first appearances\<close>

lemma sort_values_desc_stable: "sorted_desc_stable col rows (sort_values_desc col rows)"
proof -
  have "sorted (map (\<lambda>r. - col r) (sort_key (\<lambda>r. - col r) rows))"
    by (rule sorted_sort_key)
  then have desc: "sorted_wrt (\<lambda>a b. col b \<le> col a) (sort_key (\<lambda>r. - col r) rows)"
    by (simp add: sorted_wrt_map)
  have "filter (\<lambda>r. col r = k) (sort_key (\<lambda>r. - col r) rows) = filter (\<lambda>r. col r = k) rows" for k
    using sort_key_stable [of "\<lambda>r. - col r" "- k" rows] by simp
  with desc show ?thesis
    by (simp add: sorted_desc_stable_def sort_values_desc_def)
qed

lemma set_sort_values_desc [simp]: "set (sort_values_desc col rows) = set rows"
  by (simp add: sort_values_desc_def)

lemma length_sort_values_desc [simp]: "length (sort_values_desc col rows) = length rows"
  by (simp add: sort_values_desc_def)

lemma sum_list_insort_key:
  "sum_list (map f (insort_key g x xs)) = f x + sum_list (map f xs)"
  for f :: "'a \<Rightarrow> 'b::comm_monoid_add"
  by (induction xs) (simp_all add: add.left_commute)

lemma sum_list_sort_key:
  "sum_list (map f (sort_key g xs)) = sum_list (map f xs)"
  for f :: "'a \<Rightarrow> 'b::comm_monoid_add"
  by (induction xs) (simp_all add: sum_list_insort_key)

lemma sum_list_sort_values_desc:
  "sum_list (map f (sort_values_desc col rows)) = sum_list (map f rows)"
  for f :: "'a \<Rightarrow> 'b::comm_monoid_add"
  by (simp add: sort_values_desc_def sum_list_sort_key)

lemma unique_snoc:
  "unique (xs @ [x]) = (if x \<in> set (unique xs) then unique xs else unique xs @ [x])"
  by (simp add: unique_def)

lemma unique_Nil [simp]: "unique [] = []"
  by (simp add: unique_def)

lemma set_unique [simp]: "set (unique xs) = set xs"
  by (induction xs rule: rev_induct) (auto simp: unique_snoc)

lemma distinct_unique [simp]: "distinct (unique xs)"
  by (induction xs rule: rev_induct) (auto simp: unique_snoc)

subsection \<open>The cloud loop\<close>

lemma kept_guard:
  "kept item \<longleftrightarrow>
     \<not> ((case applications item of None \<Rightarrow> [] | Some as \<Rightarrow> as) = [] \<or>
        (case roadBlocks item of None \<Rightarrow> 0 | Some n \<Rightarrow> n) = 0)"
  by (auto simp: kept_def split: option.splits)

lemma cloud_step_eq:
  "cloud_step st item =
     (if \<not> kept item then Inr st
      else case app_names (case applications item of None \<Rightarrow> [] | Some as \<Rightarrow> as) of
        Inl e \<Rightarrow> Inl e
      | Inr names \<Rightarrow>
          Inr \<lparr>detailed_rows = detailed_rows st @ [cloud_row item],
               summary_by_pattern =
                 AList.update (row_pattern (cloud_row item))
                   (fst (case map_of (summary_by_pattern st) (row_pattern (cloud_row item)) of
                           None \<Rightarrow> (0, []) | Some e \<Rightarrow> e)
                      + row_occurrences (cloud_row item),
                    List.insert (row_technology (cloud_row item))
                      (snd (case map_of (summary_by_pattern st) (row_pattern (cloud_row item)) of
                              None \<Rightarrow> (0, []) | Some e \<Rightarrow> e)))
                   (summary_by_pattern st),
               pattern_app_map =
                 AList.update (row_pattern (cloud_row item))
                   (List.union names
                      (case map_of (pattern_app_map st) (row_pattern (cloud_row item)) of
                         None \<Rightarrow> [] | Some s \<Rightarrow> s))
                   (pattern_app_map st),
               all_apps_set = List.union names (all_apps_set st)\<rparr>)"
  unfolding cloud_step_def cloud_row_def Let_def kept_guard by (simp split: sum.splits)

lemma kept_occurrences: "kept item \<Longrightarrow> row_occurrences (cloud_row item) \<noteq> 0"
  by (auto simp: kept_def cloud_row_def split: option.splits)

lemma cloud_inv_init: "cloud_inv init_state"
  by (simp add: cloud_inv_def init_state_def)

lemma cloud_inv_step:
  assumes inv: "cloud_inv st" and step: "cloud_step st item = Inr st'"
  shows "cloud_inv st'"
proof (cases "kept item")
  case False
  with step have "st' = st" by (simp add: cloud_step_eq)
  with inv show ?thesis by simp
next
  case True
  define r where "r = cloud_row item"
  define p0 where "p0 = row_pattern r"
  define rows where "rows = detailed_rows st"
  define e where "e = (case map_of (summary_by_pattern st) p0 of None \<Rightarrow> (0, []) | Some e \<Rightarrow> e)"
  from True step obtain names where
    st': "st' = \<lparr>detailed_rows = rows @ [r],
            summary_by_pattern =
              AList.update p0 (fst e + row_occurrences r, List.insert (row_technology r) (snd e))
                (summary_by_pattern st),
            pattern_app_map =
              AList.update p0
                (List.union names (case map_of (pattern_app_map st) p0 of None \<Rightarrow> [] | Some s \<Rightarrow> s))
                (pattern_app_map st),
            all_apps_set = List.union names (all_apps_set st)\<rparr>"
    by (auto simp: cloud_step_eq r_def p0_def rows_def e_def split: sum.splits)
  from inv have keys: "map fst (summary_by_pattern st) = unique (map row_pattern rows)"
    and keys': "map fst (pattern_app_map st) = unique (map row_pattern rows)"
    and ent: "\<And>p c ts. map_of (summary_by_pattern st) p = Some (c, ts) \<Longrightarrow>
        c = sum_list (map row_occurrences (filter (\<lambda>r. row_pattern r = p) rows)) \<and>
        set ts = row_technology ` {r \<in> set rows. row_pattern r = p} \<and> distinct ts"
    and nz: "\<And>x. x \<in> set rows \<Longrightarrow> row_occurrences x \<noteq> 0"
    by (auto simp: cloud_inv_def rows_def)
  have k1: "map fst (summary_by_pattern st') = unique (map row_pattern (detailed_rows st'))"
    using keys by (simp add: st' AList.update_keys unique_snoc p0_def)
  have k2: "map fst (pattern_app_map st') = unique (map row_pattern (detailed_rows st'))"
    using keys' by (simp add: st' AList.update_keys unique_snoc p0_def)
  have e_ok: "fst e = sum_list (map row_occurrences (filter (\<lambda>r. row_pattern r = p0) rows)) \<and>
        set (snd e) = row_technology ` {r \<in> set rows. row_pattern r = p0} \<and> distinct (snd e)"
  proof (cases "map_of (summary_by_pattern st) p0")
    case None
    then have "p0 \<notin> set (map fst (summary_by_pattern st))"
      by (simp add: map_of_eq_None_iff)
    then have "p0 \<notin> row_pattern ` set rows" using keys by simp
    then have "filter (\<lambda>r. row_pattern r = p0) rows = []" "{r \<in> set rows. row_pattern r = p0} = {}"
      by (auto simp: filter_empty_conv)
    with None show ?thesis by (simp add: e_def)
  next
    case (Some a)
    then show ?thesis using ent [of p0 "fst a" "snd a"] by (simp add: e_def)
  qed
  have k3: "c = sum_list (map row_occurrences (filter (\<lambda>r. row_pattern r = p) (detailed_rows st'))) \<and>
        set ts = row_technology ` {r \<in> set (detailed_rows st'). row_pattern r = p} \<and> distinct ts"
    if m: "map_of (summary_by_pattern st') p = Some (c, ts)" for p c ts
  proof (cases "p = p0")
    case True
    with m have "c = fst e + row_occurrences r" "ts = List.insert (row_technology r) (snd e)"
      by (simp_all add: st' AList.update_conv')
    with e_ok True show ?thesis
      by (auto simp: st' p0_def)
  next
    case False
    with m have "map_of (summary_by_pattern st) p = Some (c, ts)"
      by (simp add: st' AList.update_conv')
    from ent [OF this] False show ?thesis
      by (auto simp: st' p0_def)
  qed
  have k4: "\<forall>x \<in> set (detailed_rows st'). row_occurrences x \<noteq> 0"
    using nz kept_occurrences [OF True] by (auto simp: st' r_def)
  show ?thesis
    unfolding cloud_inv_def using k1 k2 k3 k4 by blast
qed

lemma cloud_inv_loop:
  "cloud_inv st \<Longrightarrow> cloud_loop st items = Inr st' \<Longrightarrow> cloud_inv st'"
proof (induction items arbitrary: st)
  case Nil
  then show ?case by simp
next
  case (Cons item items)
  then show ?case
    by (auto split: sum.splits dest: cloud_inv_step)
qed

lemma cloud_loop_rows:
  "cloud_loop st items = Inr st' \<Longrightarrow>
   detailed_rows st' = detailed_rows st @ map cloud_row (filter kept items)"
proof (induction items arbitrary: st)
  case Nil
  then show ?case by simp
next
  case (Cons item items)
  from Cons.prems obtain st1 where s1: "cloud_step st item = Inr st1"
    and l: "cloud_loop st1 items = Inr st'"
    by (auto split: sum.splits)
  from s1 have "detailed_rows st1 = detailed_rows st @ map cloud_row (filter kept [item])"
    by (auto simp: cloud_step_eq split: if_splits sum.splits)
  with Cons.IH [OF l] show ?case by simp
qed

subsection \<open>Zero-occurrence records\<close>

lemma green_row_nonzero: "r \<in> set (green_row tech d) \<Longrightarrow> row_occurrences r \<noteq> 0"
  by (auto simp: green_row_def Let_def split: if_splits)

lemma green_row_zero:
  "greenOccurrences d = None \<or> greenOccurrences d = Some 0 \<Longrightarrow> green_row tech d = []"
  by (auto simp: green_row_def)

lemma green_details_append:
  "green_details tech (xs @ ys) = green_details tech xs @ green_details tech ys"
  by (induction xs) simp_all

lemma green_details_nonzero: "r \<in> set (green_details tech ds) \<Longrightarrow> row_occurrences r \<noteq> 0"
  by (induction ds) (auto dest: green_row_nonzero)

lemma green_rows_Cons:
  "green_rows (t # ts) =
     (case greenIndexDetails t of
        None \<Rightarrow> []
      | Some ds \<Rightarrow> green_details (case technology t of None \<Rightarrow> ''N/A'' | Some s \<Rightarrow> s) ds)
     @ green_rows ts"
  by (simp add: Let_def split: option.splits list.splits)

lemma green_rows_nonzero: "r \<in> set (green_rows ts) \<Longrightarrow> row_occurrences r \<noteq> 0"
proof (induction ts)
  case Nil
  then show ?case by simp
next
  case (Cons t ts)
  then show ?case
    by (auto simp del: green_rows.simps simp: green_rows_Cons split: option.splits
          dest: green_details_nonzero)
qed

lemma green_extract_rows_Some:
  assumes "green_extract_rows resp = (out, Some rows)"
  shows "\<exists>data metric ms tds. resp = Body data \<and> metrics data = Some (metric # ms) \<and>
           greenDetail metric = Some tds \<and> tds \<noteq> [] \<and> rows = green_rows tds \<and>
           rows \<noteq> [] \<and> out = []"
  using assms unfolding green_extract_rows_def Let_def
  by (auto simp del: green_rows.simps split: fetched.splits option.splits list.splits if_splits)

lemma green_extract_rows_nonzero:
  assumes "green_extract_rows resp = (out, Some rows)" and "r \<in> set rows"
  shows "row_occurrences r \<noteq> 0"
  using green_extract_rows_Some [OF assms(1)] assms(2) by (auto dest: green_rows_nonzero)

lemma extract_data_Some:
  assumes "extract_data response_json = (out, Inr (Some tables))"
  shows "\<exists>items st. response_json = Some (ItemList items) \<and> items \<noteq> [] \<and>
           cloud_loop init_state items = Inr st \<and> tables = tables_of st"
  using assms
  by (auto simp: extract_data_def
        split: option.splits cloud_json.splits list.splits sum.splits)

text \<open>
  Claim C1, the counterexample: a record with a negative occurrence count is kept. The
  guard of both extractors is \<^verbatim>\<open>occurrences == 0\<close>, so a detail with
  \<^verbatim>\<open>greenOccurrences = -3\<close> gives a row of the detail table, whose count is not
  greater than zero; the same holds of a cloud record with \<^verbatim>\<open>roadBlocks = -3\<close>.
\<close>

theorem C1_negative_occurrences_counterexample:
  "map_option (map (\<lambda>r. (row_occurrences r, 0 < row_occurrences r)))
     (snd (extract_green_data_ED (Body \<lparr>metrics = Some [\<lparr>greenDetail = Some
        [\<lparr>technology = Some ''Java'', greenIndexDetails = Some
           [\<lparr>greenRequirement = Some \<lparr>gr_display = Some ''P1''\<rparr>,
             greenOccurrences = Some (- 3), greenEffort = Some 480\<rparr>]\<rparr>]\<rparr>],
        other_keys = False\<rparr>))) = Some [(- 3, False)]
   \<and> map_sum id (map_option (\<lambda>(d, s, u). map (\<lambda>r. (row_occurrences r, 0 < row_occurrences r)) d))
       (snd (extract_data (Some (ItemList
          [\<lparr>display = Some ''P1'', techno = Some \<lparr>techno_display = Some ''Java''\<rparr>,
            roadBlocks = Some (- 3), cloudEffort = Some 480,
            applications = Some [\<lparr>name = Some ''App1''\<rparr>]\<rparr>]))))
     = Inr (Some [(- 3, False)])"
  by code_simp

text \<open>
  Claim C1 as amended. Every row of every detail table has an occurrence count different
  from zero, and a record whose occurrence count is 0 or absent contributes nothing: the
  rows of a technology, and the whole cloud loop (rows, summary, applications), are those
  of the input without the record. A negative count is not filtered.
\<close>

theorem C1_rows_have_nonzero_occurrences:
  "(extract_green_data_ED resp = (out, Some df) \<longrightarrow> (\<forall>r \<in> set df. row_occurrences r \<noteq> 0))
   \<and> (extract_green_data_GM resp = (out', Some (detailed_df, summary_df)) \<longrightarrow>
        (\<forall>r \<in> set detailed_df. row_occurrences r \<noteq> 0))
   \<and> (extract_data response_json = (out'', Inr (Some (d, s, u))) \<longrightarrow>
        (\<forall>r \<in> set d. row_occurrences r \<noteq> 0))
   \<and> (greenOccurrences dt = None \<or> greenOccurrences dt = Some 0 \<longrightarrow>
        green_details tech (ds @ dt # ds') = green_details tech (ds @ ds'))
   \<and> (roadBlocks item = None \<or> roadBlocks item = Some 0 \<longrightarrow>
        cloud_loop st (xs @ item # ys) = cloud_loop st (xs @ ys))"
proof (intro conjI impI)
  assume "extract_green_data_ED resp = (out, Some df)"
  then obtain rows where "green_extract_rows resp = (out, Some rows)"
    and "df = sort_values_desc row_occurrences rows"
    by (auto simp: extract_green_data_ED_def split: prod.splits option.splits)
  then show "\<forall>r \<in> set df. row_occurrences r \<noteq> 0"
    by (auto dest: green_extract_rows_nonzero)
next
  assume "extract_green_data_GM resp = (out', Some (detailed_df, summary_df))"
  then obtain rows where "green_extract_rows resp = (out', Some rows)"
    and "detailed_df = sort_values_desc row_occurrences rows"
    by (auto simp: extract_green_data_GM_def Let_def split: prod.splits option.splits)
  then show "\<forall>r \<in> set detailed_df. row_occurrences r \<noteq> 0"
    by (auto dest: green_extract_rows_nonzero)
next
  assume "extract_data response_json = (out'', Inr (Some (d, s, u)))"
  from extract_data_Some [OF this] obtain items st' where
    l: "cloud_loop init_state items = Inr st'" and t: "(d, s, u) = tables_of st'"
    by blast
  from cloud_inv_loop [OF cloud_inv_init l]
  have "\<forall>r \<in> set (detailed_rows st'). row_occurrences r \<noteq> 0"
    by (simp add: cloud_inv_def)
  with t show "\<forall>r \<in> set d. row_occurrences r \<noteq> 0"
    by (simp add: tables_of_def detailed_df_of_def)
next
  assume "greenOccurrences dt = None \<or> greenOccurrences dt = Some 0"
  then show "green_details tech (ds @ dt # ds') = green_details tech (ds @ ds')"
    by (simp add: green_details_append green_row_zero)
next
  assume "roadBlocks item = None \<or> roadBlocks item = Some 0"
  then have "cloud_step s' item = Inr s'" for s'
    by (intro cloud_step_skip) auto
  then show "cloud_loop st (xs @ item # ys) = cloud_loop st (xs @ ys)"
    by (rule cloud_loop_skip)
qed

theorem C1_rows_have_nonzero_occurrences_witness:
  "extract_green_data_ED (Body \<lparr>metrics = Some [\<lparr>greenDetail = Some
        [\<lparr>technology = Some ''Java'', greenIndexDetails = Some
           [\<lparr>greenRequirement = Some \<lparr>gr_display = Some ''P1''\<rparr>,
             greenOccurrences = Some 5, greenEffort = Some 480\<rparr>,
            \<lparr>greenRequirement = Some \<lparr>gr_display = Some ''P2''\<rparr>,
             greenOccurrences = Some 0, greenEffort = Some 480\<rparr>]\<rparr>,
         \<lparr>technology = Some ''Python'', greenIndexDetails = Some
           [\<lparr>greenRequirement = Some \<lparr>gr_display = Some ''P1''\<rparr>,
             greenOccurrences = Some 10, greenEffort = Some 240\<rparr>]\<rparr>]\<rparr>],
        other_keys = False\<rparr>)
     = ([], Some
         [\<lparr>row_pattern = ''P1'', row_technology = ''Python'', row_occurrences = 10,
           row_effort = 1 / 2, row_cost = None, row_tech_debt = None\<rparr>,
          \<lparr>row_pattern = ''P1'', row_technology = ''Java'', row_occurrences = 5,
           row_effort = 1, row_cost = None, row_tech_debt = None\<rparr>])
   \<and> list_all (\<lambda>r. row_occurrences r \<noteq> 0)
        [\<lparr>row_pattern = ''P1'', row_technology = ''Python'', row_occurrences = 10,
           row_effort = 1 / 2, row_cost = None, row_tech_debt = None\<rparr>,
          \<lparr>row_pattern = ''P1'', row_technology = ''Java'', row_occurrences = 5,
           row_effort = 1, row_cost = None, row_tech_debt = None\<rparr>]
   \<and> roadBlocks \<lparr>display = Some ''P1'', techno = None, roadBlocks = Some 0,
          cloudEffort = Some 480, applications = Some [\<lparr>name = Some ''App1''\<rparr>]\<rparr> = Some 0
   \<and> cloud_loop init_state
        ([] @ \<lparr>display = Some ''P1'', techno = None, roadBlocks = Some 0,
                cloudEffort = Some 480, applications = Some [\<lparr>name = Some ''App1''\<rparr>]\<rparr> # [])
       = Inr init_state"
proof -
  let ?doc = "Body \<lparr>metrics = Some [\<lparr>greenDetail = Some
        [\<lparr>technology = Some ''Java'', greenIndexDetails = Some
           [\<lparr>greenRequirement = Some \<lparr>gr_display = Some ''P1''\<rparr>,
             greenOccurrences = Some 5, greenEffort = Some 480\<rparr>,
            \<lparr>greenRequirement = Some \<lparr>gr_display = Some ''P2''\<rparr>,
             greenOccurrences = Some 0, greenEffort = Some 480\<rparr>]\<rparr>,
         \<lparr>technology = Some ''Python'', greenIndexDetails = Some
           [\<lparr>greenRequirement = Some \<lparr>gr_display = Some ''P1''\<rparr>,
             greenOccurrences = Some 10, greenEffort = Some 240\<rparr>]\<rparr>]\<rparr>],
        other_keys = False\<rparr>"
  let ?df = "[\<lparr>row_pattern = ''P1'', row_technology = ''Python'', row_occurrences = 10,
           row_effort = 1 / 2, row_cost = None, row_tech_debt = None\<rparr>,
          \<lparr>row_pattern = ''P1'', row_technology = ''Java'', row_occurrences = 5,
           row_effort = 1, row_cost = None, row_tech_debt = None\<rparr>]"
  let ?item = "\<lparr>display = Some ''P1'', techno = None, roadBlocks = Some 0,
          cloudEffort = Some 480, applications = Some [\<lparr>name = Some ''App1''\<rparr>]\<rparr>"
  have run: "extract_green_data_ED ?doc = ([], Some ?df)"
    by code_simp
  note inst = C1_rows_have_nonzero_occurrences
    [of ?doc "[]" ?df "[]" "[]" "[]" None "[]" "[]" "[]" "[]"
        "\<lparr>greenRequirement = None, greenOccurrences = Some 0, greenEffort = None\<rparr>"
        "''Java''" "[]" "[]" ?item init_state "[]" "[]"]
  from inst run have rows: "list_all (\<lambda>r. row_occurrences r \<noteq> 0) ?df"
    by (simp only: list_all_iff) blast
  from inst have loop: "cloud_loop init_state ([] @ ?item # []) = cloud_loop init_state ([] @ [])"
    by simp
  show ?thesis
    using run rows loop by simp
qed

subsection \<open>The technologies cell of a summary row\<close>

lemma distinct_map_insort_key:
  "distinct (map f (insort_key g x xs)) \<longleftrightarrow> f x \<notin> f ` set xs \<and> distinct (map f xs)"
  by (induction xs) (auto simp: set_insort_key)

lemma distinct_map_sort_key: "distinct (map f (sort_key g xs)) \<longleftrightarrow> distinct (map f xs)"
  by (induction xs) (simp_all add: distinct_map_insort_key)

lemma distinct_map_sort_values_desc:
  "distinct (map f (sort_values_desc col rows)) \<longleftrightarrow> distinct (map f rows)"
  by (simp add: sort_values_desc_def distinct_map_sort_key)

lemma sort_distinct: "distinct ts \<Longrightarrow> sort ts = sorted_list_of_set (set ts)"
  for ts :: "'a::linorder list"
  by (simp add: sorted_list_of_set_sort_remdups distinct_remdups_id)

lemma summary_GM_patterns:
  "map sum_pattern (summary_GM df) = sort (remdups (map row_pattern df))"
  by (simp add: summary_GM_def Let_def comp_def)

lemma summary_GM_row:
  assumes "row \<in> set (summary_GM df)"
  shows "sum_technologies row =
           join (unique (map row_technology (filter (\<lambda>r. row_pattern r = sum_pattern row) df)))
       \<and> sum_occurrences row =
           sum_list (map row_occurrences (filter (\<lambda>r. row_pattern r = sum_pattern row) df))"
  using assms by (auto simp: summary_GM_def Let_def)

lemma extract_green_data_GM_Some:
  assumes "extract_green_data_GM resp = (out, Some (detailed_df, summary_df))"
  shows "\<exists>rows. green_extract_rows resp = (out, Some rows) \<and>
           detailed_df = sort_values_desc row_occurrences rows \<and>
           summary_df = sort_values_desc sum_occurrences (summary_GM detailed_df)"
  using assms
  by (auto simp: extract_green_data_GM_def Let_def split: prod.splits option.splits)

lemma cloud_summary_row:
  assumes inv: "cloud_inv st" and row: "row \<in> set (summary_df_of st)"
  shows "sum_technologies row =
           join (sorted_list_of_set
             (row_technology ` {r \<in> set (detailed_rows st). row_pattern r = sum_pattern row}))
       \<and> sum_occurrences row =
           sum_list (map row_occurrences
             (filter (\<lambda>r. row_pattern r = sum_pattern row) (detailed_rows st)))"
proof -
  from row obtain p c ts where mem: "(p, (c, ts)) \<in> set (summary_by_pattern st)"
    and eq: "row = \<lparr>sum_pattern = p, sum_technologies = join (sort ts), sum_occurrences = c\<rparr>"
    by (auto simp: summary_df_of_def)
  from inv have "distinct (map fst (summary_by_pattern st))"
    by (simp add: cloud_inv_def)
  with mem have "map_of (summary_by_pattern st) p = Some (c, ts)"
    by simp
  moreover from inv have "\<And>p c ts. map_of (summary_by_pattern st) p = Some (c, ts) \<Longrightarrow>
        c = sum_list (map row_occurrences
              (filter (\<lambda>r. row_pattern r = p) (detailed_rows st))) \<and>
        set ts = row_technology ` {r \<in> set (detailed_rows st). row_pattern r = p} \<and>
        distinct ts"
    unfolding cloud_inv_def by (elim conjE) (rule allE, assumption, blast)
  ultimately have "c = sum_list (map row_occurrences
            (filter (\<lambda>r. row_pattern r = p) (detailed_rows st)))"
    and "set ts = row_technology ` {r \<in> set (detailed_rows st). row_pattern r = p}"
    and "distinct ts"
    by blast+
  with eq show ?thesis
    by (simp add: sort_distinct)
qed

lemma cloud_summary_patterns:
  "cloud_inv st \<Longrightarrow>
   sum_pattern ` set (summary_df_of st) = row_pattern ` set (detailed_rows st) \<and>
   distinct (map sum_pattern (summary_df_of st))"
proof -
  assume inv: "cloud_inv st"
  have m: "map sum_pattern
             (map (\<lambda>(pattern, data).
                 \<lparr>sum_pattern = pattern, sum_technologies = join (sort (snd data)),
                  sum_occurrences = fst data\<rparr>) (summary_by_pattern st))
           = map fst (summary_by_pattern st)"
    by (simp add: comp_def case_prod_unfold)
  from inv have k: "map fst (summary_by_pattern st) = unique (map row_pattern (detailed_rows st))"
    by (simp add: cloud_inv_def)
  have "sum_pattern ` set (summary_df_of st) = set (map fst (summary_by_pattern st))"
    unfolding summary_df_of_def set_sort_values_desc m [symmetric] by (simp only: set_map)
  moreover have "distinct (map sum_pattern (summary_df_of st))"
    unfolding summary_df_of_def distinct_map_sort_values_desc m k by (rule distinct_unique)
  ultimately show ?thesis unfolding k by (simp only: set_unique set_map simp_thms)
qed




subsection \<open>The sheets\<close>

lemma set_cell_in_range:
  assumes "1 \<le> row" and "row \<le> length ws" and "col < length (ws ! (row - 1))"
  shows "set_cell col row v ws = ws[row - 1 := (ws ! (row - 1))[col := v]]"
  using assms by (simp add: set_cell_def Let_def)

lemma write_round_formulas_Suc:
  "lo \<le> hi \<Longrightarrow>
   write_round_formulas lo (Suc hi) ws =
     set_cell 5 hi (round_formula hi) (write_round_formulas lo hi ws)"
  by (simp add: write_round_formulas_def)

lemma write_round_formulas_empty: "hi \<le> lo \<Longrightarrow> write_round_formulas lo hi ws = ws"
  by (simp add: write_round_formulas_def)

lemma write_round_formulas_nth:
  assumes shape: "\<forall>cells \<in> set ws. length cells = 6" and lo: "1 \<le> lo"
  shows "hi \<le> length ws + 1 \<Longrightarrow>
     length (write_round_formulas lo hi ws) = length ws \<and>
     (\<forall>i < length ws.
        write_round_formulas lo hi ws ! i =
          (if lo \<le> i + 1 \<and> i + 1 < hi then (ws ! i)[5 := round_formula (i + 1)] else ws ! i))"
proof (induction hi)
  case 0
  then show ?case by (simp add: write_round_formulas_empty)
next
  case (Suc hi)
  show ?case
  proof (cases "lo \<le> hi")
    case False
    then show ?thesis by (auto simp: write_round_formulas_empty)
  next
    case True
    let ?w = "write_round_formulas lo hi ws"
    from Suc have len: "length ?w = length ws"
      and nth: "\<And>i. i < length ws \<Longrightarrow>
        ?w ! i = (if lo \<le> i + 1 \<and> i + 1 < hi then (ws ! i)[5 := round_formula (i + 1)] else ws ! i)"
      by simp_all
    from True lo Suc.prems have hi: "1 \<le> hi" "hi \<le> length ws" "hi - 1 < length ws"
      by simp_all
    have old: "?w ! (hi - 1) = ws ! (hi - 1)"
      using nth [OF hi(3)] hi(1) by simp
    have "length (ws ! (hi - 1)) = 6"
      using shape hi(3) by simp
    then have step: "write_round_formulas lo (Suc hi) ws =
        ?w[hi - 1 := (ws ! (hi - 1))[5 := round_formula hi]]"
      using hi len old
      by (simp add: write_round_formulas_Suc [OF True] set_cell_in_range)
    show ?thesis
    proof (intro conjI allI impI)
      show "length (write_round_formulas lo (Suc hi) ws) = length ws"
        by (simp add: step len)
    next
      fix i assume i: "i < length ws"
      show "write_round_formulas lo (Suc hi) ws ! i =
          (if lo \<le> i + 1 \<and> i + 1 < Suc hi then (ws ! i)[5 := round_formula (i + 1)] else ws ! i)"
      proof (cases "i = hi - 1")
        case True
        with hi \<open>lo \<le> hi\<close> show ?thesis
          by (simp add: step len)
      next
        case False
        with hi have "i + 1 \<noteq> hi" by auto
        with False i show ?thesis
          by (simp add: step len nth less_Suc_eq)
      qed
    qed
  qed
qed

lemma detail_cells_length [simp]: "length (detail_cells r) = 6"
  by (simp add: detail_cells_def)

lemma detail_total_length [simp]: "length (detail_total df) = 6"
  by (simp add: detail_total_def)

lemma detail_header_length [simp]: "length detail_header = 6"
  by (simp add: detail_header_def)

lemma detail_sheet_shape:
  "\<forall>cells \<in> set (detail_header # map detail_cells df @ [detail_total df]). length cells = 6"
  by auto

lemma detail_sheet_ED:
  "detail_sheet (save_to_excel_ED df domain_id application_id timestamp) =
     set_cell 5 (length df + 2) (sum_formula (length df + 2))
       (write_round_formulas 2 (length df + 2)
          (detail_header # map detail_cells df @ [detail_total df]))"
  by (simp add: save_to_excel_ED_def detail_sheet_def written_def Let_def)

lemma detail_sheet_GM:
  "detail_sheet (save_to_excel_GM df summary_df domain_id application_id timestamp) =
     set_cell 5 (length df + 2) (sum_formula (length df + 2))
       (write_round_formulas 2 (length df + 2)
          (detail_header # map detail_cells df @ [detail_total df]))"
  by (simp add: save_to_excel_GM_def detail_sheet_def written_def Let_def)

lemma detail_sheet_CP:
  "detail_sheet (save_to_excel_CP df summary_df unique_apps_df domain_id timestamp) =
     write_round_formulas 2 (length df + 2)
       (detail_header # map detail_cells df @ [detail_total df])"
  by (simp add: save_to_excel_CP_def detail_sheet_def written_def Let_def)

text \<open>The sheet after the formula loop: its length, its data rows and its last row.\<close>

lemma formulas_sheet:
  fixes df :: "detail_row list"
  shows "length (write_round_formulas 2 (length df + 2)
            (detail_header # map detail_cells df @ [detail_total df])) = length df + 2"
    and "i < length df \<Longrightarrow>
         write_round_formulas 2 (length df + 2)
            (detail_header # map detail_cells df @ [detail_total df]) ! (i + 1)
         = (detail_cells (df ! i))[5 := round_formula (i + 2)]"
    and "write_round_formulas 2 (length df + 2)
            (detail_header # map detail_cells df @ [detail_total df]) ! (length df + 1)
         = detail_total df"
    and "write_round_formulas 2 (length df + 2)
            (detail_header # map detail_cells df @ [detail_total df]) ! 0
         = detail_header"
proof -
  let ?ws0 = "detail_header # map detail_cells df @ [detail_total df]"
  let ?ws1 = "write_round_formulas 2 (length df + 2) ?ws0"
  have shape: "\<forall>cells \<in> set ?ws0. length cells = 6"
    by (rule detail_sheet_shape)
  have len0: "length ?ws0 = length df + 2" by simp
  have w: "length ?ws1 = length ?ws0 \<and>
     (\<forall>i < length ?ws0.
        ?ws1 ! i =
          (if 2 \<le> i + 1 \<and> i + 1 < length df + 2 then (?ws0 ! i)[5 := round_formula (i + 1)]
           else ?ws0 ! i))"
    by (rule write_round_formulas_nth [OF shape]) simp_all
  note nth = conjunct2 [OF w, rule_format]
  from w show "length ?ws1 = length df + 2" by simp
  show "?ws1 ! (i + 1) = (detail_cells (df ! i))[5 := round_formula (i + 2)]" if "i < length df"
  proof -
    from that have "i + 1 < length ?ws0" by simp
    from nth [OF this] that show ?thesis by (simp add: nth_append)
  qed
  have "length df + 1 < length ?ws0" by simp
  from nth [OF this] show "?ws1 ! (length df + 1) = detail_total df"
    by (simp add: nth_append)
  have "0 < length ?ws0" by simp
  from nth [OF this] show "?ws1 ! 0 = detail_header" by simp
qed

lemma total_sheet:
  fixes df :: "detail_row list"
  shows "length (set_cell 5 (length df + 2) (sum_formula (length df + 2))
           (write_round_formulas 2 (length df + 2)
              (detail_header # map detail_cells df @ [detail_total df]))) = length df + 2"
    and "i < length df \<Longrightarrow>
         set_cell 5 (length df + 2) (sum_formula (length df + 2))
           (write_round_formulas 2 (length df + 2)
              (detail_header # map detail_cells df @ [detail_total df])) ! (i + 1)
         = (detail_cells (df ! i))[5 := round_formula (i + 2)]"
    and "set_cell 5 (length df + 2) (sum_formula (length df + 2))
           (write_round_formulas 2 (length df + 2)
              (detail_header # map detail_cells df @ [detail_total df])) ! (length df + 1)
         = (detail_total df)[5 := sum_formula (length df + 2)]"
proof -
  let ?ws1 = "write_round_formulas 2 (length df + 2)
                (detail_header # map detail_cells df @ [detail_total df])"
  let ?ws2 = "set_cell 5 (length df + 2) (sum_formula (length df + 2)) ?ws1"
  note f = formulas_sheet [where df = df]
  have eq: "?ws2 = ?ws1[length df + 1 := (detail_total df)[5 := sum_formula (length df + 2)]]"
    using f(1) f(3) by (simp add: set_cell_in_range)
  show "length ?ws2 = length df + 2"
    unfolding eq using f(1) by simp
  show "?ws2 ! (i + 1) = (detail_cells (df ! i))[5 := round_formula (i + 2)]" if "i < length df"
    unfolding eq using f(1) f(2) [OF that] that by simp
  show "?ws2 ! (length df + 1) = (detail_total df)[5 := sum_formula (length df + 2)]"
    unfolding eq using f(1) by simp
qed



subsection \<open>The order of the tables\<close>

lemma green_extract_rows_Body:
  assumes "metrics data = Some (metric # ms)" and "greenDetail metric = Some tds"
    and "green_extract_rows (Body data) = (out, Some rows)"
  shows "rows = green_rows tds"
  using assms unfolding green_extract_rows_def Let_def
  by (auto simp del: green_rows.simps split: option.splits list.splits if_splits)

lemma extract_green_data_ED_Some:
  assumes "extract_green_data_ED resp = (out, Some df)"
  shows "\<exists>rows. green_extract_rows resp = (out, Some rows) \<and>
           df = sort_values_desc row_occurrences rows"
  using assms
  by (auto simp: extract_green_data_ED_def split: prod.splits option.splits)

lemma cloud_tables_order:
  assumes l: "cloud_loop init_state items = Inr st"
  shows "sorted_desc_stable row_occurrences (map cloud_row (filter kept items))
           (detailed_df_of st)"
    and "\<exists>pre. sorted_desc_stable sum_occurrences pre (summary_df_of st) \<and>
           map sum_pattern pre = unique (map row_pattern (map cloud_row (filter kept items)))"
    and "\<exists>pre. sorted_desc_stable ua_count pre (butlast (unique_apps_df_of st)) \<and>
           map ua_pattern pre = unique (map row_pattern (map cloud_row (filter kept items)))"
    and "ua_pattern (last (unique_apps_df_of st)) = ''Unique apps across all patterns''"
proof -
  have rows: "detailed_rows st = map cloud_row (filter kept items)"
    using cloud_loop_rows [OF l] by (simp add: init_state_def)
  have inv: "cloud_inv st"
    by (rule cloud_inv_loop [OF cloud_inv_init l])
  show "sorted_desc_stable row_occurrences (map cloud_row (filter kept items)) (detailed_df_of st)"
    unfolding detailed_df_of_def rows by (rule sort_values_desc_stable)
  let ?pre = "map (\<lambda>(pattern, data).
               \<lparr>sum_pattern = pattern, sum_technologies = join (sort (snd data)),
                sum_occurrences = fst data\<rparr>) (summary_by_pattern st)"
  have "map sum_pattern ?pre = map fst (summary_by_pattern st)"
    by (simp add: comp_def case_prod_unfold)
  with inv have "map sum_pattern ?pre = unique (map row_pattern (map cloud_row (filter kept items)))"
    by (simp add: cloud_inv_def rows)
  moreover have "sorted_desc_stable sum_occurrences ?pre (summary_df_of st)"
    unfolding summary_df_of_def by (rule sort_values_desc_stable)
  ultimately show "\<exists>pre. sorted_desc_stable sum_occurrences pre (summary_df_of st) \<and>
           map sum_pattern pre = unique (map row_pattern (map cloud_row (filter kept items)))"
    by blast
  let ?pre' = "map (\<lambda>(pattern, apps). \<lparr>ua_pattern = pattern, ua_count = int (length apps)\<rparr>)
                 (pattern_app_map st)"
  have "map ua_pattern ?pre' = map fst (pattern_app_map st)"
    by (simp add: comp_def case_prod_unfold)
  with inv have "map ua_pattern ?pre' = unique (map row_pattern (map cloud_row (filter kept items)))"
    by (simp add: cloud_inv_def rows)
  moreover have "sorted_desc_stable ua_count ?pre' (butlast (unique_apps_df_of st))"
    unfolding unique_apps_df_of_def butlast_snoc by (rule sort_values_desc_stable)
  ultimately show "\<exists>pre. sorted_desc_stable ua_count pre (butlast (unique_apps_df_of st)) \<and>
           map ua_pattern pre = unique (map row_pattern (map cloud_row (filter kept items)))"
    by blast
  show "ua_pattern (last (unique_apps_df_of st)) = ''Unique apps across all patterns''"
    by (simp add: unique_apps_df_of_def)
qed




end
